theory Spec2Isabelle
  imports Main
begin

section \<open>The Digidad client library over its hosted store\<close>

text \<open>
  The development embeds the methods of \<open>SupabaseClient\<close>
  (\<open>client/dist/supabase-config.js\<close>) that read and write the tables \<open>users\<close>,
  \<open>messages\<close>, \<open>user_chats\<close> and \<open>profiles\<close>. The tables live in the hosted store; the
  client reaches them through query-builder calls. A call is modelled by what it does to the
  tables when the store serves it, and by a \<open>fault\<close> value for the two ways it can go wrong:
  the store answers with an error object, or the call itself throws.

  Every method starts with \<open>await this.ensureInitialized()\<close>. The model is of an initialised
  client (\<open>isInitialized = true\<close>), for which that call returns at once.

  Identifiers are the store's strings; timestamps (\<open>created_at\<close>, \<open>new Date()\<close>) are natural
  numbers, of which only the order matters.
\<close>

subsection \<open>Rows and client state\<close>

record user =
  user_id :: string
  phone :: string
  name :: "string option"
  email :: "string option"
  is_online :: bool
  last_seen :: nat

record message =
  message_id :: string
  from_user_id :: string
  to_user_id :: string
  content :: string
  message_type :: string
  reply_to_message_id :: "string option"
  file_url :: "string option"
  file_name :: "string option"
  file_size :: "nat option"
  is_deleted :: bool
  is_edited :: bool
  created_at :: nat
  updated_at :: "nat option"

record user_chat =
  owner_id :: string
  peer_id :: string
  unread_count :: nat
  is_archived :: bool
  last_message_content :: "string option"
  last_message_timestamp :: "nat option"

record profile =
  profile_user_id :: string
  display_name :: string
  status_text :: string

text \<open>
  \<open>currentUser\<close> is the field of the client object; the four lists are the tables, in the
  order the store keeps their rows.
\<close>

record client =
  currentUser :: "user option"
  users :: "user list"
  messages :: "message list"
  user_chats :: "user_chat list"
  profiles :: "profile list"

text \<open>
  How one call to the store goes: served, answered with \<open>{data: null, error: {code, message}}\<close>,
  or thrown.
\<close>

datatype fault = NoFault | Refuse string string | Throw string

subsection \<open>findUserByPhone\<close>

text \<open>\<open>phone.replace(/\D/g, '')\<close>: keep the characters \<open>0\<close> to \<open>9\<close>.\<close>

definition is_digit :: "char \<Rightarrow> bool" where
  "is_digit c = (c \<in> set ''0123456789'')"

definition digitsOnly :: "string \<Rightarrow> string" where
  "digitsOnly raw = filter is_digit raw"

text \<open>\<open>digitsOnly.slice(-10)\<close>: the last ten characters, or the whole string when shorter.\<close>

definition last10Digits :: "string \<Rightarrow> string" where
  "last10Digits digits = drop (length digits - 10) digits"

text \<open>
  \<open>.like('phone', `%${last10Digits}`)\<close>: the pattern is \<open>%\<close> followed by digits, which hold no
  wildcard, so a row matches when its phone ends with the digits.
\<close>

definition like_suffix :: "string \<Rightarrow> string \<Rightarrow> bool" where
  "like_suffix pat s = (length pat \<le> length s \<and> drop (length s - length pat) s = pat)"

text \<open>\<open>.select('id, phone, name')\<close>: the three columns a search returns.\<close>

record user_hit =
  hit_id :: string
  hit_phone :: string
  hit_name :: "string option"

definition select_hit :: "user \<Rightarrow> user_hit" where
  "select_hit u = \<lparr>hit_id = user_id u, hit_phone = phone u, hit_name = name u\<rparr>"

definition nil_uuid :: string where
  "nil_uuid = ''00000000-0000-0000-0000-000000000000''"

text \<open>
  \<open>this.currentUser?.id || '00000000-0000-0000-0000-000000000000'\<close>: the nil identifier when
  nobody is signed in, and also when the id is the empty string, which is falsy.
\<close>

definition excluded_id :: "client \<Rightarrow> string" where
  "excluded_id st =
     (case currentUser st of
        None \<Rightarrow> nil_uuid
      | Some u \<Rightarrow> if user_id u = [] then nil_uuid else user_id u)"

text \<open>
  The query both methods send: \<open>phone LIKE %digits\<close>, \<open>id <> excluded\<close>, \<open>limit 5\<close>, with no
  \<open>order\<close>, so rows come in table order.
\<close>

definition search_rows :: "client \<Rightarrow> string \<Rightarrow> user_hit list" where
  "search_rows st digits =
     map select_hit
       (take 5 (filter (\<lambda>u. like_suffix digits (phone u) \<and> user_id u \<noteq> excluded_id st)
                  (users st)))"

text \<open>
  How the search call goes. Method 1 is the query builder; when it throws, method 2 is a
  direct \<open>fetch\<close> of the same query, which answers \<open>ok\<close>, answers with another HTTP status, or
  throws too.
\<close>

datatype fetch_outcome = FetchOk | FetchNotOk nat string | FetchThrows string

datatype search_outcome =
    ClientReplies
  | ClientRefuses string string
  | ClientThrows fetch_outcome

text \<open>The value of \<open>data\<close> after the two methods: the rows, or \<open>null\<close>.\<close>

definition search_data :: "search_outcome \<Rightarrow> client \<Rightarrow> string \<Rightarrow> user_hit list option" where
  "search_data env st digits =
     (case env of
        ClientReplies \<Rightarrow> Some (search_rows st digits)
      | ClientRefuses code msg \<Rightarrow> None
      | ClientThrows FetchOk \<Rightarrow> Some (search_rows st digits)
      | ClientThrows (FetchNotOk status msg) \<Rightarrow> None
      | ClientThrows (FetchThrows msg) \<Rightarrow> None)"

text \<open>
  \<open>{status: 'found', user: data[0], allResults: data}\<close>, \<open>{status: 'not_found'}\<close> or
  \<open>{status: 'error', message}\<close>. The outer \<open>catch\<close> that builds the last one is reached only
  when \<open>phone\<close> is not a string, which the type of the argument excludes.
\<close>

datatype find_result = Found user_hit "user_hit list" | NotFound | FindError string

definition findUserByPhone :: "search_outcome \<Rightarrow> client \<Rightarrow> string \<Rightarrow> find_result" where
  "findUserByPhone env st phone_input =
     (let digits = last10Digits (digitsOnly phone_input) in
      if length digits < 10 then NotFound
      else (case search_data env st digits of
              None \<Rightarrow> NotFound
            | Some [] \<Rightarrow> NotFound
            | Some (h # hs) \<Rightarrow> Found h (h # hs)))"

subsection \<open>sendMessage\<close>

text \<open>The optional \<open>fileData\<close> argument, an object with \<open>url\<close>, \<open>name\<close> and \<open>size\<close>.\<close>

record file_data =
  fd_url :: "string option"
  fd_name :: "string option"
  fd_size :: "nat option"

text \<open>\<open>fileData?.url || null\<close>: a missing object, a missing field and a falsy field all give \<open>null\<close>.\<close>

definition text_or_null :: "string option \<Rightarrow> string option" where
  "text_or_null v = (case v of None \<Rightarrow> None | Some s \<Rightarrow> if s = [] then None else Some s)"

definition size_or_null :: "nat option \<Rightarrow> nat option" where
  "size_or_null v = (case v of None \<Rightarrow> None | Some n \<Rightarrow> if n = 0 then None else Some n)"

text \<open>
  What an insert needs from the store: how the call goes, and the id and the clock value the
  store gives the new row.
\<close>

record insert_env =
  ins_reply :: fault
  ins_id :: string
  ins_now :: nat

text \<open>
  Modelled from the spec: the table definition of \<open>messages\<close>, which fills in the columns
  \<open>messageData\<close> leaves out, is not among the client sources; a message is created on send
  with its edited and deleted flags unset. The rest of the row that
  \<open>.insert(messageData).select().single()\<close> returns is \<open>messageData\<close> itself.
\<close>

definition new_message ::
  "insert_env \<Rightarrow> string \<Rightarrow> string \<Rightarrow> string \<Rightarrow> string \<Rightarrow> string option \<Rightarrow> file_data option
     \<Rightarrow> message" where
  "new_message env sender toUserId body messageType replyToMessageId fileData =
     \<lparr>message_id = ins_id env,
      from_user_id = sender,
      to_user_id = toUserId,
      content = body,
      message_type = messageType,
      reply_to_message_id = replyToMessageId,
      file_url = (case fileData of None \<Rightarrow> None | Some fd \<Rightarrow> text_or_null (fd_url fd)),
      file_name = (case fileData of None \<Rightarrow> None | Some fd \<Rightarrow> text_or_null (fd_name fd)),
      file_size = (case fileData of None \<Rightarrow> None | Some fd \<Rightarrow> size_or_null (fd_size fd)),
      is_deleted = False,
      is_edited = False,
      created_at = ins_now env,
      updated_at = None\<rparr>"

definition no_authenticated_user :: string where
  "no_authenticated_user = ''No authenticated user''"

text \<open>\<open>{status: 'sent', message: data}\<close> or \<open>{status: 'error', message}\<close>.\<close>

datatype send_result = Sent message | SendError string

text \<open>
  The client reads \<open>unread_count\<close>, \<open>last_message_content\<close> and \<open>last_message_timestamp\<close>
  from \<open>user_chats\<close> and writes none of them when a message is sent: keeping the summaries
  is left to the store, as part of the insert into \<open>messages\<close>. What the store does there is
  the type below, a function from the inserted row and the table \<open>user_chats\<close> to the new
  table. It is a parameter of \<open>sendMessage\<close>.
\<close>

type_synonym summary_reaction = "message \<Rightarrow> user_chat list \<Rightarrow> user_chat list"

text \<open>
  Modelled from the spec: the definition of the store (its schema and what it runs on an
  insert into \<open>messages\<close>) is not among the sources. The spec has a summary created lazily on
  the first message between a pair and mutated on every new message: the row for an owner
  and a peer takes the new message as its last message and adds the given number to its
  unread count, and is created with that count when it is missing.
\<close>

definition upsert_summary :: "string \<Rightarrow> string \<Rightarrow> message \<Rightarrow> nat \<Rightarrow> user_chat list \<Rightarrow> user_chat list" where
  "upsert_summary owner peer row inc chats =
     (if filter (\<lambda>c. owner_id c = owner \<and> peer_id c = peer) chats = []
      then chats @ [\<lparr>owner_id = owner, peer_id = peer, unread_count = inc, is_archived = False,
                     last_message_content = Some (content row),
                     last_message_timestamp = Some (created_at row)\<rparr>]
      else map (\<lambda>c. if owner_id c = owner \<and> peer_id c = peer
                     then c\<lparr>unread_count := unread_count c + inc,
                            last_message_content := Some (content row),
                            last_message_timestamp := Some (created_at row)\<rparr>
                     else c) chats)"

text \<open>
  Modelled from the spec: the reaction of the store to an insert into \<open>messages\<close>, absent from
  the sources like the rest of the store. The spec has the two summaries upserted with the
  message, owner = sender with peer = recipient and owner = recipient with peer = sender,
  and the unread count incremented on the recipient's summary only.
\<close>

definition upsert_summaries :: summary_reaction where
  "upsert_summaries row chats =
     upsert_summary (to_user_id row) (from_user_id row) row 1
       (upsert_summary (from_user_id row) (to_user_id row) row 0 chats)"

text \<open>
  The method checks that a user is signed in, builds \<open>messageData\<close> and inserts it into
  \<open>messages\<close>. It makes no other check and no other call to the store. The insert is one
  statement: when the store serves it, the row and the store's reaction to it are both in
  place; when the store refuses it or the call throws, neither is.
\<close>

definition sendMessage ::
  "summary_reaction \<Rightarrow> insert_env \<Rightarrow> client \<Rightarrow> string \<Rightarrow> string \<Rightarrow> string \<Rightarrow> string option
     \<Rightarrow> file_data option \<Rightarrow> send_result \<times> client" where
  "sendMessage on_insert env st toUserId body messageType replyToMessageId fileData =
     (case currentUser st of
        None \<Rightarrow> (SendError no_authenticated_user, st)
      | Some u \<Rightarrow>
          (case ins_reply env of
             Throw m \<Rightarrow> (SendError m, st)
           | Refuse code m \<Rightarrow> (SendError m, st)
           | NoFault \<Rightarrow>
               (let row = new_message env (user_id u) toUserId body messageType
                            replyToMessageId fileData
                in (Sent row, st\<lparr>messages := messages st @ [row],
                                 user_chats := on_insert row (user_chats st)\<rparr>))))"

subsection \<open>getMessages\<close>

text \<open>
  The \<open>options\<close> argument. A field that is absent is \<open>None\<close>; \<open>limit\<close> then defaults to 50,
  and an absent (or falsy) timestamp adds no filter.
\<close>

record message_options =
  limit :: "nat option"
  beforeTimestamp :: "nat option"
  afterTimestamp :: "nat option"

definition requested_limit :: "message_options \<Rightarrow> nat" where
  "requested_limit opts = (case limit opts of None \<Rightarrow> 50 | Some n \<Rightarrow> n)"

text \<open>
  The filters of the query: \<open>is_deleted = false\<close>, the \<open>or(and(..),and(..))\<close> over the two
  directions of the conversation, and the optional \<open>lt\<close> and \<open>gt\<close> on \<open>created_at\<close>.
\<close>

definition between_users :: "string \<Rightarrow> string \<Rightarrow> message \<Rightarrow> bool" where
  "between_users me peer m =
     ((from_user_id m = me \<and> to_user_id m = peer) \<or> (from_user_id m = peer \<and> to_user_id m = me))"

definition in_window :: "message_options \<Rightarrow> message \<Rightarrow> bool" where
  "in_window opts m =
     ((case beforeTimestamp opts of None \<Rightarrow> True | Some b \<Rightarrow> created_at m < b) \<and>
      (case afterTimestamp opts of None \<Rightarrow> True | Some a \<Rightarrow> a < created_at m))"

definition selected :: "string \<Rightarrow> string \<Rightarrow> message_options \<Rightarrow> message \<Rightarrow> bool" where
  "selected me peer opts m = (is_deleted m = False \<and> between_users me peer m \<and> in_window opts m)"

text \<open>
  \<open>.order('created_at', {ascending: false}).limit(limit)\<close>: the filters apply to the whole
  table wherever the builder adds them, then the rows are ordered newest first and cut at the
  limit. Rows of equal \<open>created_at\<close> come in an order the store chooses; the model takes the
  one of a stable sort.
\<close>

definition query_messages :: "client \<Rightarrow> string \<Rightarrow> string \<Rightarrow> message_options \<Rightarrow> message list" where
  "query_messages st me peer opts =
     take (requested_limit opts)
       (rev (sort_key created_at (filter (selected me peer opts) (messages st))))"

text \<open>
  The embedded \<open>reply_to_message\<close>: the row the reply points to, with the name of its sender,
  shown as \<open>{id, text, author}\<close> where a missing or empty name reads \<open>'User'\<close>.
\<close>

record reply_preview =
  rp_id :: string
  rp_text :: string
  rp_author :: string

definition author_name :: "client \<Rightarrow> string \<Rightarrow> string" where
  "author_name st uid =
     (case find (\<lambda>u. user_id u = uid) (users st) of
        None \<Rightarrow> ''User''
      | Some u \<Rightarrow> (case name u of None \<Rightarrow> ''User'' | Some n \<Rightarrow> if n = [] then ''User'' else n))"

definition reply_of :: "client \<Rightarrow> message \<Rightarrow> reply_preview option" where
  "reply_of st m =
     (case reply_to_message_id m of
        None \<Rightarrow> None
      | Some rid \<Rightarrow>
          (case find (\<lambda>r. message_id r = rid) (messages st) of
             None \<Rightarrow> None
           | Some r \<Rightarrow> Some \<lparr>rp_id = message_id r, rp_text = content r,
                              rp_author = author_name st (from_user_id r)\<rparr>))"

text \<open>
  The object built for the frontend; its fields are \<open>id\<close>, \<open>from\<close>, \<open>msg\<close>, \<open>ts\<close>, \<open>seen\<close>,
  \<open>replyTo\<close>, \<open>messageType\<close>, \<open>fileUrl\<close> and \<open>fileName\<close> in the source.
\<close>

record formatted_message =
  fm_id :: string
  fm_from :: string
  fm_msg :: string
  fm_ts :: nat
  fm_seen :: bool
  fm_replyTo :: "reply_preview option"
  fm_messageType :: string
  fm_fileUrl :: "string option"
  fm_fileName :: "string option"

definition format_message :: "client \<Rightarrow> message \<Rightarrow> formatted_message" where
  "format_message st m =
     \<lparr>fm_id = message_id m,
      fm_from = from_user_id m,
      fm_msg = content m,
      fm_ts = created_at m,
      fm_seen = True,
      fm_replyTo = reply_of st m,
      fm_messageType = message_type m,
      fm_fileUrl = file_url m,
      fm_fileName = file_name m\<rparr>"

text \<open>\<open>{status: 'success', messages, hasMore}\<close> or \<open>{status: 'error', message}\<close>.\<close>

datatype messages_result = MessagesSuccess "formatted_message list" bool | MessagesError string

definition getMessages :: "fault \<Rightarrow> client \<Rightarrow> string \<Rightarrow> message_options \<Rightarrow> messages_result" where
  "getMessages reply st peerId opts =
     (case currentUser st of
        None \<Rightarrow> MessagesError no_authenticated_user
      | Some u \<Rightarrow>
          (case reply of
             Throw m \<Rightarrow> MessagesError m
           | Refuse code m \<Rightarrow> MessagesError m
           | NoFault \<Rightarrow>
               (let data = query_messages st (user_id u) peerId opts
                in MessagesSuccess (map (format_message st) (rev data))
                     (length data = requested_limit opts))))"

subsection \<open>markMessagesAsRead\<close>

text \<open>
  \<open>update({unread_count: 0})\<close> on the rows of \<open>user_chats\<close> with the given owner and peer. The
  method returns nothing; it ignores an error reply and swallows an exception.
\<close>

definition reset_unread :: "string \<Rightarrow> string \<Rightarrow> user_chat \<Rightarrow> user_chat" where
  "reset_unread me peer c =
     (if owner_id c = me \<and> peer_id c = peer then c\<lparr>unread_count := 0\<rparr> else c)"

definition markMessagesAsRead :: "fault \<Rightarrow> client \<Rightarrow> string \<Rightarrow> client" where
  "markMessagesAsRead reply st peerId =
     (case currentUser st of
        None \<Rightarrow> st
      | Some u \<Rightarrow>
          (case reply of
             Throw m \<Rightarrow> st
           | Refuse code m \<Rightarrow> st
           | NoFault \<Rightarrow> st\<lparr>user_chats := map (reset_unread (user_id u) peerId) (user_chats st)\<rparr>))"

subsection \<open>editMessage and deleteMessage\<close>

text \<open>
  The error of \<open>.single()\<close> when the statement returns no row or several, as the store words
  it.
\<close>

definition pgrst116 :: string where
  "pgrst116 = ''PGRST116''"

definition single_row_message :: string where
  "single_row_message = ''JSON object requested, multiple (or no) rows returned''"

definition owned_by :: "string \<Rightarrow> string \<Rightarrow> message \<Rightarrow> bool" where
  "owned_by messageId me m = (message_id m = messageId \<and> from_user_id m = me)"

definition apply_edit :: "string \<Rightarrow> string \<Rightarrow> string \<Rightarrow> nat \<Rightarrow> message \<Rightarrow> message" where
  "apply_edit messageId me newContent now m =
     (if owned_by messageId me m
      then m\<lparr>content := newContent, is_edited := True, updated_at := Some now\<rparr>
      else m)"

text \<open>\<open>{status: 'success', message: data}\<close> or \<open>{status: 'error', message}\<close>.\<close>

datatype edit_result = EditSuccess message | EditError string

text \<open>
  The update is filtered by \<open>id\<close> and by \<open>from_user_id = currentUser.id\<close>, and \<open>.select().single()\<close>
  asks for the one updated row. When the filter selects one row the store updates and
  returns it; otherwise the statement has no single row to return, the store answers with
  the error above and keeps the table as it was.
\<close>

definition editMessage ::
  "fault \<Rightarrow> nat \<Rightarrow> client \<Rightarrow> string \<Rightarrow> string \<Rightarrow> edit_result \<times> client" where
  "editMessage reply now st messageId newContent =
     (case currentUser st of
        None \<Rightarrow> (EditError no_authenticated_user, st)
      | Some u \<Rightarrow>
          (case reply of
             Throw m \<Rightarrow> (EditError m, st)
           | Refuse code m \<Rightarrow> (EditError m, st)
           | NoFault \<Rightarrow>
               (case filter (owned_by messageId (user_id u)) (messages st) of
                  [row] \<Rightarrow>
                    (EditSuccess (apply_edit messageId (user_id u) newContent now row),
                     st\<lparr>messages :=
                          map (apply_edit messageId (user_id u) newContent now) (messages st)\<rparr>)
                | _ \<Rightarrow> (EditError single_row_message, st))))"

text \<open>\<open>{status: 'success'}\<close> or \<open>{status: 'error', message}\<close>.\<close>

datatype status_result = StatusSuccess | StatusError string

definition apply_delete :: "string \<Rightarrow> string \<Rightarrow> message \<Rightarrow> message" where
  "apply_delete messageId me m =
     (if owned_by messageId me m then m\<lparr>is_deleted := True\<rparr> else m)"

text \<open>
  The same filter as the edit, but the update asks for no row back: an update that selects
  no row is no error, and the method reports success.
\<close>

definition deleteMessage :: "fault \<Rightarrow> client \<Rightarrow> string \<Rightarrow> status_result \<times> client" where
  "deleteMessage reply st messageId =
     (case currentUser st of
        None \<Rightarrow> (StatusError no_authenticated_user, st)
      | Some u \<Rightarrow>
          (case reply of
             Throw m \<Rightarrow> (StatusError m, st)
           | Refuse code m \<Rightarrow> (StatusError m, st)
           | NoFault \<Rightarrow>
               (StatusSuccess,
                st\<lparr>messages := map (apply_delete messageId (user_id u)) (messages st)\<rparr>)))"

subsection \<open>deleteChat\<close>

text \<open>
  Two \<open>delete()\<close> statements, neither checked for an error reply. The first removes from
  \<open>messages\<close> the rows matching
  \<open>or(from_user_id = me, to_user_id = me)\<close> and \<open>from_user_id = peerId\<close>; the second removes the
  caller's \<open>user_chats\<close> row for the peer.
\<close>

definition chat_delete_filter :: "string \<Rightarrow> string \<Rightarrow> message \<Rightarrow> bool" where
  "chat_delete_filter me peer m =
     ((from_user_id m = me \<or> to_user_id m = me) \<and> from_user_id m = peer)"

definition deleteChat :: "fault \<Rightarrow> fault \<Rightarrow> client \<Rightarrow> string \<Rightarrow> status_result \<times> client" where
  "deleteChat reply1 reply2 st peerId =
     (case currentUser st of
        None \<Rightarrow> (StatusError no_authenticated_user, st)
      | Some u \<Rightarrow>
          (case reply1 of
             Throw m \<Rightarrow> (StatusError m, st)
           | _ \<Rightarrow>
               (let st1 = (if reply1 = NoFault
                           then st\<lparr>messages :=
                                  filter (\<lambda>m. \<not> chat_delete_filter (user_id u) peerId m)
                                    (messages st)\<rparr>
                           else st)
                in (case reply2 of
                      Throw m \<Rightarrow> (StatusError m, st1)
                    | Refuse code m \<Rightarrow> (StatusSuccess, st1)
                    | NoFault \<Rightarrow>
                        (StatusSuccess,
                         st1\<lparr>user_chats :=
                               filter (\<lambda>c. \<not> (owner_id c = user_id u \<and> peer_id c = peerId))
                                 (user_chats st1)\<rparr>)))))"

subsection \<open>updateTypingStatus\<close>

text \<open>
  The body is one \<open>console.log\<close> under the check for a signed-in user; it reads and writes no
  field of the client and sends nothing to the store.
\<close>

definition updateTypingStatus :: "client \<Rightarrow> string \<Rightarrow> bool \<Rightarrow> client" where
  "updateTypingStatus st peerId isTyping =
     (case currentUser st of
        None \<Rightarrow> st
      | Some u \<Rightarrow> st)"

subsection \<open>signUp and signIn\<close>

text \<open>
  \<open>.from('users').select('*').eq('phone', phone).single()\<close>: the one row with that phone, or
  the error of \<open>.single()\<close> when there is none or several, or whatever fault the call meets.
\<close>

datatype lookup_reply = LookupData user | LookupError string string | LookupThrown string

definition select_single_by_phone :: "fault \<Rightarrow> user list \<Rightarrow> string \<Rightarrow> lookup_reply" where
  "select_single_by_phone reply rows phone_input =
     (case reply of
        Throw m \<Rightarrow> LookupThrown m
      | Refuse code m \<Rightarrow> LookupError code m
      | NoFault \<Rightarrow>
          (case filter (\<lambda>u. phone u = phone_input) rows of
             [u] \<Rightarrow> LookupData u
           | _ \<Rightarrow> LookupError pgrst116 single_row_message))"

text \<open>\<open>error.message.includes('row-level security')\<close>.\<close>

fun includes_str :: "string \<Rightarrow> string \<Rightarrow> bool" where
  "includes_str [] pat = (pat = [])"
| "includes_str (c # cs) pat = (take (length pat) (c # cs) = pat \<or> includes_str cs pat)"

definition registration_blocked :: string where
  "registration_blocked =
     ''Registration blocked by security policy. Please contact support or check database configuration.''"

definition default_status :: string where
  "default_status = ''Hey there! I am using Digidad.''"

text \<open>
  The calls \<open>signUp\<close> can make: the insert into \<open>users\<close>, the lookup by phone after a refused
  insert, and the insert into \<open>profiles\<close>.
\<close>

record signup_env =
  su_insert :: insert_env
  su_find :: fault
  su_profile :: fault

text \<open>\<open>{status: 'success', user}\<close> or \<open>{status: 'error', message}\<close>.\<close>

datatype auth_result = AuthSuccess user | AuthError string

definition signUp ::
  "signup_env \<Rightarrow> client \<Rightarrow> string \<Rightarrow> string option \<Rightarrow> string option \<Rightarrow> auth_result \<times> client" where
  "signUp env st phone_input name_input email_input =
     (case ins_reply (su_insert env) of
        Throw m \<Rightarrow> (AuthError m, st)
      | Refuse code m \<Rightarrow>
          (if code = ''42501'' \<or> includes_str m ''row-level security'' then
             (case select_single_by_phone (su_find env) (users st) phone_input of
                LookupThrown m' \<Rightarrow> (AuthError m', st)
              | LookupData existing \<Rightarrow> (AuthSuccess existing, st\<lparr>currentUser := Some existing\<rparr>)
              | LookupError c' m' \<Rightarrow> (AuthError registration_blocked, st))
           else if code = ''23505'' then
             (case select_single_by_phone (su_find env) (users st) phone_input of
                LookupThrown m' \<Rightarrow> (AuthError m', st)
              | LookupData existing \<Rightarrow> (AuthSuccess existing, st\<lparr>currentUser := Some existing\<rparr>)
              | LookupError c' m' \<Rightarrow> (AuthError m, st))
           else (AuthError m, st))
      | NoFault \<Rightarrow>
          (let created = \<lparr>user_id = ins_id (su_insert env), phone = phone_input,
                          name = name_input, email = email_input, is_online = True,
                          last_seen = ins_now (su_insert env)\<rparr>;
               st1 = st\<lparr>users := users st @ [created]\<rparr>
           in (case su_profile env of
                 Throw m \<Rightarrow> (AuthError m, st1)
               | Refuse code m \<Rightarrow> (AuthSuccess created, st1\<lparr>currentUser := Some created\<rparr>)
               | NoFault \<Rightarrow>
                   (AuthSuccess created,
                    st1\<lparr>profiles := profiles st1 @
                           [\<lparr>profile_user_id = user_id created,
                             display_name = (case text_or_null name_input of
                                               None \<Rightarrow> phone_input | Some n \<Rightarrow> n),
                             status_text = default_status\<rparr>],
                         currentUser := Some created\<rparr>))))"

text \<open>
  The calls \<open>signIn\<close> can make: the lookup by phone, the update of the online status, and
  those of \<open>signUp\<close>.
\<close>

record signin_env =
  si_lookup :: fault
  si_update :: fault
  si_now :: nat
  si_signup :: signup_env

definition set_online :: "string \<Rightarrow> nat \<Rightarrow> user \<Rightarrow> user" where
  "set_online uid now u = (if user_id u = uid then u\<lparr>is_online := True, last_seen := now\<rparr> else u)"

text \<open>
  The three places that call \<open>signUp(phone)\<close>: the branch for \<open>PGRST116\<close>, the branch for any
  other \<open>userError\<close>, and the \<open>catch\<close> around the whole body.
\<close>

definition signIn :: "signin_env \<Rightarrow> client \<Rightarrow> string \<Rightarrow> auth_result \<times> client" where
  "signIn env st phone_input =
     (case select_single_by_phone (si_lookup env) (users st) phone_input of
        LookupThrown m \<Rightarrow> signUp (si_signup env) st phone_input None None
      | LookupError code m \<Rightarrow>
          (if code = pgrst116 then signUp (si_signup env) st phone_input None None
           else signUp (si_signup env) st phone_input None None)
      | LookupData found \<Rightarrow>
          (case si_update env of
             Throw m \<Rightarrow> signUp (si_signup env) st phone_input None None
           | Refuse code m \<Rightarrow> (AuthSuccess found, st\<lparr>currentUser := Some found\<rparr>)
           | NoFault \<Rightarrow>
               (AuthSuccess found,
                st\<lparr>users := map (set_online (user_id found) (si_now env)) (users st),
                   currentUser := Some found\<rparr>)))"

subsection \<open>Reading the unread counter\<close>

text \<open>
  The \<open>unread_count\<close> values the table \<open>user_chats\<close> holds for an owner and a peer; \<open>getUserChats\<close>
  shows them to the owner as \<open>unreadCount\<close>.
\<close>

definition unread_counts :: "client \<Rightarrow> string \<Rightarrow> string \<Rightarrow> nat list" where
  "unread_counts st owner peer =
     map unread_count (filter (\<lambda>c. owner_id c = owner \<and> peer_id c = peer) (user_chats st))"

subsection \<open>A small store for the examples\<close>

definition alice :: user where
  "alice = \<lparr>user_id = ''u-alice'', phone = ''+15551234567'', name = Some ''Alice'',
            email = None, is_online = True, last_seen = 0\<rparr>"

definition bob :: user where
  "bob = \<lparr>user_id = ''u-bob'', phone = ''+15557654321'', name = Some ''Bob'',
          email = None, is_online = False, last_seen = 0\<rparr>"

definition text_message :: "string \<Rightarrow> string \<Rightarrow> string \<Rightarrow> string \<Rightarrow> nat \<Rightarrow> bool \<Rightarrow> message" where
  "text_message mid sender recipient body at gone =
     \<lparr>message_id = mid, from_user_id = sender, to_user_id = recipient, content = body,
      message_type = ''text'', reply_to_message_id = None, file_url = None, file_name = None,
      file_size = None, is_deleted = gone, is_edited = False, created_at = at,
      updated_at = None\<rparr>"

definition m1 :: message where
  "m1 = text_message ''m1'' ''u-alice'' ''u-bob'' ''hello'' 10 False"

definition m2 :: message where
  "m2 = text_message ''m2'' ''u-bob'' ''u-alice'' ''oops'' 20 True"

definition m3 :: message where
  "m3 = text_message ''m3'' ''u-alice'' ''u-bob'' ''are you there'' 30 False"

definition m4 :: message where
  "m4 = text_message ''m4'' ''u-alice'' ''u-carol'' ''hi carol'' 25 False"

definition chat_bob_alice :: user_chat where
  "chat_bob_alice = \<lparr>owner_id = ''u-bob'', peer_id = ''u-alice'', unread_count = 2,
                     is_archived = False, last_message_content = Some ''are you there'',
                     last_message_timestamp = Some 30\<rparr>"

definition chat_alice_bob :: user_chat where
  "chat_alice_bob = \<lparr>owner_id = ''u-alice'', peer_id = ''u-bob'', unread_count = 0,
                     is_archived = False, last_message_content = Some ''are you there'',
                     last_message_timestamp = Some 30\<rparr>"

text \<open>Bob is signed in; Alice has written to him twice, and he has deleted his one answer.\<close>

definition bobs_client :: client where
  "bobs_client = \<lparr>currentUser = Some bob, users = [alice, bob], messages = [m3, m1, m2, m4],
                  user_chats = [chat_bob_alice, chat_alice_bob], profiles = []\<rparr>"

definition served_insert :: insert_env where
  "served_insert = \<lparr>ins_reply = NoFault, ins_id = ''m5'', ins_now = 40\<rparr>"

definition served_signup :: signup_env where
  "served_signup = \<lparr>su_insert = \<lparr>ins_reply = NoFault, ins_id = ''u-new'', ins_now = 50\<rparr>,
                    su_find = NoFault, su_profile = NoFault\<rparr>"

definition newest_two :: message_options where
  "newest_two = \<lparr>limit = Some 2, beforeTimestamp = None, afterTimestamp = None\<rparr>"

text \<open>A sign-in whose lookup the store refuses with a statement timeout.\<close>

definition lookup_refused :: signin_env where
  "lookup_refused = \<lparr>si_lookup = Refuse ''57014'' ''canceling statement due to statement timeout'',
                     si_update = NoFault, si_now = 50, si_signup = served_signup\<rparr>"

text \<open>The same store seen from Alice's client, and from a client where nobody is signed in.\<close>

definition alices_client :: client where
  "alices_client = bobs_client\<lparr>currentUser := Some alice\<rparr>"

definition signed_out :: client where
  "signed_out = bobs_client\<lparr>currentUser := None\<rparr>"

text \<open>An insert the store refuses, and a store with a third user whose phone ends like Bob's.\<close>

definition refused_insert :: insert_env where
  "refused_insert = \<lparr>ins_reply = Refuse ''57014'' ''canceling statement due to statement timeout'',
                     ins_id = ''m5'', ins_now = 40\<rparr>"



section \<open>Properties\<close>

subsection \<open>Phone search\<close>

lemma like_suffix_iff: "like_suffix pat s \<longleftrightarrow> (\<exists>pre. s = pre @ pat)"
proof
  assume "like_suffix pat s"
  then have "s = take (length s - length pat) s @ pat"
    by (metis append_take_drop_id like_suffix_def)
  then show "\<exists>pre. s = pre @ pat" ..
next
  assume "\<exists>pre. s = pre @ pat"
  then show "like_suffix pat s"
    by (auto simp: like_suffix_def)
qed

lemma length_last10Digits: "length (last10Digits d) = min 10 (length d)"
  by (simp add: last10Digits_def)

lemma search_rows_sound:
  assumes "h \<in> set (search_rows st digits)"
  shows "\<exists>u \<in> set (users st). h = select_hit u \<and> like_suffix digits (phone u)
           \<and> user_id u \<noteq> excluded_id st"
proof -
  from assms obtain u where
    "u \<in> set (take 5 (filter (\<lambda>u. like_suffix digits (phone u) \<and> user_id u \<noteq> excluded_id st)
                        (users st)))" and h: "h = select_hit u"
    by (auto simp: search_rows_def)
  then have "u \<in> set (filter (\<lambda>u. like_suffix digits (phone u) \<and> user_id u \<noteq> excluded_id st)
                        (users st))"
    by (meson in_set_takeD)
  with h show ?thesis by auto
qed

lemma search_rows_empty_iff:
  "search_rows st digits = [] \<longleftrightarrow>
     (\<forall>u \<in> set (users st). \<not> (like_suffix digits (phone u) \<and> user_id u \<noteq> excluded_id st))"
  by (auto simp: search_rows_def filter_empty_conv)

lemma find_result_hits:
  assumes "findUserByPhone env st p = Found h hs"
  shows "hs = search_rows st (last10Digits (digitsOnly p)) \<and> hs \<noteq> [] \<and> h = hd hs
           \<and> length (digitsOnly p) \<ge> 10"
  using assms
  by (auto simp: findUserByPhone_def search_data_def Let_def length_last10Digits
           split: if_splits option.splits list.splits search_outcome.splits fetch_outcome.splits)


text \<open>
  Claim C2. The search keeps the digits of its input and looks for stored users whose phone
  ends with the last ten of them. An input with fewer than ten digits gives \<open>not_found\<close>
  whatever the store does. Two inputs with the same last ten digits give the same answer, so
  \<open>+1 (555) 123-4567\<close> and \<open>5551234567\<close> find the same user. Every row of a \<open>found\<close>
  answer is a stored user whose phone ends with those digits, and when the store serves the
  query and such a user other than the searcher exists, the answer is \<open>found\<close>.
\<close>

theorem findUserByPhone_last10_suffix:
  "(length (digitsOnly p) < 10 \<longrightarrow> findUserByPhone env st p = NotFound)
   \<and> (last10Digits (digitsOnly p) = last10Digits (digitsOnly q)
        \<longrightarrow> findUserByPhone env st p = findUserByPhone env st q)
   \<and> findUserByPhone env st ''+1 (555) 123-4567'' = findUserByPhone env st ''5551234567''
   \<and> (findUserByPhone env st p = Found h hs \<longrightarrow>
          h = hd hs \<and> hs \<noteq> [] \<and>
          (\<forall>x \<in> set hs. \<exists>u \<in> set (users st).
              x = select_hit u \<and> (\<exists>pre. phone u = pre @ last10Digits (digitsOnly p))))
   \<and> (10 \<le> length (digitsOnly p) \<and> u \<in> set (users st) \<and> user_id u \<noteq> excluded_id st
        \<and> phone u = pre @ last10Digits (digitsOnly p)
        \<longrightarrow> (\<exists>h hs. findUserByPhone ClientReplies st p = Found h hs))"
proof (intro conjI impI)
  assume "length (digitsOnly p) < 10"
  then show "findUserByPhone env st p = NotFound"
    by (simp add: findUserByPhone_def length_last10Digits)
next
  assume "last10Digits (digitsOnly p) = last10Digits (digitsOnly q)"
  then show "findUserByPhone env st p = findUserByPhone env st q"
    by (simp add: findUserByPhone_def)
next
  have "last10Digits (digitsOnly ''+1 (555) 123-4567'') = last10Digits (digitsOnly ''5551234567'')"
    by (simp add: last10Digits_def digitsOnly_def is_digit_def)
  then show "findUserByPhone env st ''+1 (555) 123-4567'' = findUserByPhone env st ''5551234567''"
    by (simp only: findUserByPhone_def)
next
  assume f: "findUserByPhone env st p = Found h hs"
  from find_result_hits [OF f] show "h = hd hs" by blast
  from find_result_hits [OF f] show "hs \<noteq> []" by blast
  from find_result_hits [OF f] have hs: "hs = search_rows st (last10Digits (digitsOnly p))" by blast
  show "\<forall>x \<in> set hs. \<exists>u \<in> set (users st).
          x = select_hit u \<and> (\<exists>pre. phone u = pre @ last10Digits (digitsOnly p))"
  proof
    fix x assume "x \<in> set hs"
    with hs search_rows_sound [of x st "last10Digits (digitsOnly p)"]
    show "\<exists>u \<in> set (users st). x = select_hit u \<and> (\<exists>pre. phone u = pre @ last10Digits (digitsOnly p))"
      by (auto simp: like_suffix_iff)
  qed
next
  assume a: "10 \<le> length (digitsOnly p) \<and> u \<in> set (users st) \<and> user_id u \<noteq> excluded_id st
        \<and> phone u = pre @ last10Digits (digitsOnly p)"
  then have "like_suffix (last10Digits (digitsOnly p)) (phone u)"
    by (auto simp: like_suffix_iff)
  with a have "search_rows st (last10Digits (digitsOnly p)) \<noteq> []"
    unfolding search_rows_empty_iff by blast
  with a show "\<exists>h hs. findUserByPhone ClientReplies st p = Found h hs"
    by (auto simp: findUserByPhone_def search_data_def length_last10Digits split: list.splits)
qed

theorem findUserByPhone_last10_suffix_witness:
  "findUserByPhone ClientReplies bobs_client ''+1 (555) 123-4567''
     = Found (select_hit alice) [select_hit alice]
   \<and> findUserByPhone ClientReplies bobs_client ''5551234567''
     = Found (select_hit alice) [select_hit alice]
   \<and> phone alice = ''+1'' @ last10Digits (digitsOnly ''5551234567'')
   \<and> length (digitsOnly ''55512345'') < 10
   \<and> findUserByPhone ClientReplies bobs_client ''55512345'' = NotFound"
proof -
  have short: "length (digitsOnly ''55512345'') < 10"
    by (simp add: digitsOnly_def is_digit_def)
  have ends: "phone alice = ''+1'' @ last10Digits (digitsOnly ''5551234567'')"
    by (simp add: alice_def last10Digits_def digitsOnly_def is_digit_def)
  have hit: "findUserByPhone ClientReplies bobs_client ''5551234567''
               = Found (select_hit alice) [select_hit alice]"
    by (simp add: findUserByPhone_def digitsOnly_def is_digit_def last10Digits_def search_data_def
          search_rows_def like_suffix_def excluded_id_def bobs_client_def alice_def bob_def Let_def)
  note t = findUserByPhone_last10_suffix [of "''55512345''" ClientReplies bobs_client]
  note t' = findUserByPhone_last10_suffix [of _ ClientReplies bobs_client]
  from t short have "findUserByPhone ClientReplies bobs_client ''55512345'' = NotFound" by blast
  moreover from t' have "findUserByPhone ClientReplies bobs_client ''+1 (555) 123-4567''
                  = findUserByPhone ClientReplies bobs_client ''5551234567''" by blast
  ultimately show ?thesis using hit short ends by simp
qed




subsection \<open>Reading a conversation\<close>

lemma rev_query_messages:
  "rev (query_messages st me peer opts) =
     drop (length (filter (selected me peer opts) (messages st)) - requested_limit opts)
       (sort_key created_at (filter (selected me peer opts) (messages st)))"
  by (simp add: query_messages_def rev_take)

lemma query_messages_selected:
  "m \<in> set (query_messages st me peer opts) \<Longrightarrow> m \<in> set (messages st) \<and> selected me peer opts m"
  by (auto simp: query_messages_def dest: in_set_takeD)

lemma page_sorted: "sorted (map created_at (rev (query_messages st me peer opts)))"
  unfolding rev_query_messages drop_map [symmetric]
  by (rule sorted_wrt_drop) (rule sorted_sort_key)

lemma page_newest:
  assumes m: "m \<in> set (messages st)" "selected me peer opts m"
    and out: "m \<notin> set (query_messages st me peer opts)"
    and r: "r \<in> set (query_messages st me peer opts)"
  shows "created_at m \<le> created_at r"
proof -
  define xs where "xs = sort_key created_at (filter (selected me peer opts) (messages st))"
  define k where "k = length (filter (selected me peer opts) (messages st)) - requested_limit opts"
  have page: "set (query_messages st me peer opts) = set (drop k xs)"
    using rev_query_messages [of st me peer opts] unfolding xs_def k_def
    by (metis set_rev)
  have "m \<in> set xs" using m by (simp add: xs_def)
  then have "m \<in> set (take k xs) \<union> set (drop k xs)"
    by (metis append_take_drop_id set_append)
  with out page have mt: "m \<in> set (take k xs)" by simp
  from r page have rd: "r \<in> set (drop k xs)" by simp
  have "sorted (map created_at (take k xs @ drop k xs))"
    by (simp add: xs_def)
  then have "\<forall>x\<in>set (take k xs). \<forall>y\<in>set (drop k xs). created_at x \<le> created_at y"
    by (simp only: map_append sorted_append set_map) blast
  with mt rd show ?thesis by blast
qed

lemma fm_ts_format: "map fm_ts (map (format_message st) rows) = map created_at rows"
  by (simp add: format_message_def)

lemma getMessages_success:
  assumes "getMessages reply st peer opts = MessagesSuccess msgs hasMore"
  shows "\<exists>me. currentUser st = Some me \<and> reply = NoFault
           \<and> msgs = map (format_message st) (rev (query_messages st (user_id me) peer opts))
           \<and> hasMore = (length (query_messages st (user_id me) peer opts) = requested_limit opts)"
  using assms
  by (auto simp: getMessages_def Let_def split: option.splits fault.splits)

text \<open>
  Claim C4. For a signed-in user, a served \<open>getMessages\<close> succeeds. Whenever it succeeds, the
  messages returned are the formatted rows of a page of the table: every row is a stored
  message between the current user and the peer that is not soft-deleted, the page is in
  ascending order of \<open>created_at\<close>, no selected row left out of the page is newer than a row in
  it, and \<open>hasMore\<close> is true exactly when the number of messages returned equals the
  requested limit.
\<close>

theorem getMessages_page:
  "(currentUser st = Some me \<longrightarrow>
      (\<exists>msgs hasMore. getMessages NoFault st peer opts = MessagesSuccess msgs hasMore))
   \<and> (currentUser st = Some me \<and> getMessages reply st peer opts = MessagesSuccess msgs hasMore \<longrightarrow>
        (\<exists>rows. msgs = map (format_message st) rows
            \<and> (\<forall>m \<in> set rows. m \<in> set (messages st) \<and> between_users (user_id me) peer m
                  \<and> is_deleted m = False)
            \<and> sorted (map created_at rows)
            \<and> (\<forall>m \<in> set (messages st). selected (user_id me) peer opts m \<and> m \<notin> set rows \<longrightarrow>
                  (\<forall>r \<in> set rows. created_at m \<le> created_at r)))
        \<and> sorted (map fm_ts msgs)
        \<and> (hasMore \<longleftrightarrow> length msgs = requested_limit opts))"
proof (intro conjI impI)
  assume "currentUser st = Some me"
  then show "\<exists>msgs hasMore. getMessages NoFault st peer opts = MessagesSuccess msgs hasMore"
    by (simp add: getMessages_def Let_def)
next
  assume a: "currentUser st = Some me \<and> getMessages reply st peer opts = MessagesSuccess msgs hasMore"
  let ?page = "query_messages st (user_id me) peer opts"
  from a getMessages_success [of reply st peer opts msgs hasMore]
  have msgs: "msgs = map (format_message st) (rev ?page)"
    and more: "hasMore = (length ?page = requested_limit opts)"
    by auto
  have rows: "\<forall>m \<in> set (rev ?page). m \<in> set (messages st) \<and> between_users (user_id me) peer m
                  \<and> is_deleted m = False"
    using query_messages_selected [of _ st "user_id me" peer opts]
    by (auto simp: selected_def)
  have newest: "\<forall>m \<in> set (messages st). selected (user_id me) peer opts m \<and> m \<notin> set (rev ?page) \<longrightarrow>
                  (\<forall>r \<in> set (rev ?page). created_at m \<le> created_at r)"
    using page_newest [of _ st "user_id me" peer opts] by auto
  from msgs rows newest page_sorted [of st "user_id me" peer opts]
  show "\<exists>rows. msgs = map (format_message st) rows
            \<and> (\<forall>m \<in> set rows. m \<in> set (messages st) \<and> between_users (user_id me) peer m
                  \<and> is_deleted m = False)
            \<and> sorted (map created_at rows)
            \<and> (\<forall>m \<in> set (messages st). selected (user_id me) peer opts m \<and> m \<notin> set rows \<longrightarrow>
                  (\<forall>r \<in> set rows. created_at m \<le> created_at r))"
    by blast
  from msgs page_sorted [of st "user_id me" peer opts] show "sorted (map fm_ts msgs)"
    by (simp only: fm_ts_format)
  from msgs more show "hasMore \<longleftrightarrow> length msgs = requested_limit opts"
    by simp
qed

theorem getMessages_page_witness:
  "currentUser bobs_client = Some bob
   \<and> getMessages NoFault bobs_client ''u-alice'' newest_two
        = MessagesSuccess [format_message bobs_client m1, format_message bobs_client m3] True
   \<and> sorted (map fm_ts [format_message bobs_client m1, format_message bobs_client m3])
   \<and> length [format_message bobs_client m1, format_message bobs_client m3] = requested_limit newest_two"
proof -
  have c: "currentUser bobs_client = Some bob" by (simp add: bobs_client_def)
  have q: "query_messages bobs_client ''u-bob'' ''u-alice'' newest_two = [m3, m1]"
    by (simp add: query_messages_def requested_limit_def newest_two_def selected_def
          between_users_def in_window_def bobs_client_def m1_def m2_def m3_def m4_def
          text_message_def sort_key_def)
  have e: "getMessages NoFault bobs_client ''u-alice'' newest_two
        = MessagesSuccess [format_message bobs_client m1, format_message bobs_client m3] True"
  proof -
    have l: "requested_limit newest_two = 2"
      by (simp add: requested_limit_def newest_two_def)
    have u: "user_id bob = ''u-bob''" by (simp add: bob_def)
    show ?thesis by (simp add: getMessages_def c u q l)
  qed
  from getMessages_page [where st = bobs_client and me = bob and peer = "''u-alice''"
      and opts = newest_two and reply = NoFault
      and msgs = "[format_message bobs_client m1, format_message bobs_client m3]"
      and hasMore = True] c e
  have "sorted (map fm_ts [format_message bobs_client m1, format_message bobs_client m3])
        \<and> length [format_message bobs_client m1, format_message bobs_client m3]
            = requested_limit newest_two"
    by blast
  with c e show ?thesis by blast
qed

subsection \<open>Marking a conversation read\<close>

lemma reset_unread_idem: "reset_unread me peer (reset_unread me peer c) = reset_unread me peer c"
  by (simp add: reset_unread_def)

lemma markMessagesAsRead_served:
  "currentUser st = Some me \<Longrightarrow>
   markMessagesAsRead NoFault st peer
     = st\<lparr>user_chats := map (reset_unread (user_id me) peer) (user_chats st)\<rparr>"
  by (simp add: markMessagesAsRead_def)

lemma filter_reset_unread:
  "filter (\<lambda>c. owner_id c = me \<and> peer_id c = peer) (map (reset_unread me peer) cs)
     = map (reset_unread me peer) (filter (\<lambda>c. owner_id c = me \<and> peer_id c = peer) cs)"
  by (induction cs) (simp_all add: reset_unread_def)

lemma unread_counts_after:
  assumes c: "currentUser st = Some me"
  shows "unread_counts (markMessagesAsRead NoFault st peer) (user_id me) peer
           = map (\<lambda>n. 0) (unread_counts st (user_id me) peer)"
proof -
  have "map unread_count (map (reset_unread (user_id me) peer)
            (filter (\<lambda>c. owner_id c = user_id me \<and> peer_id c = peer) cs))
        = map (\<lambda>n. 0) (map unread_count (filter (\<lambda>c. owner_id c = user_id me \<and> peer_id c = peer) cs))" for cs
    by (induction cs) (simp_all add: reset_unread_def)
  moreover have "user_chats (st\<lparr>user_chats := x\<rparr>) = x" for x
    by simp
  ultimately show ?thesis
    by (simp only: markMessagesAsRead_served [OF c] unread_counts_def filter_reset_unread)
qed

lemma markMessagesAsRead_fault:
  "reply \<noteq> NoFault \<Longrightarrow> markMessagesAsRead reply st peer = st"
  by (cases reply) (simp_all add: markMessagesAsRead_def split: option.split)

lemma markMessagesAsRead_twice:
  "markMessagesAsRead reply (markMessagesAsRead NoFault st peer) peer
       = markMessagesAsRead NoFault st peer"
proof (cases "reply = NoFault")
  case False
  then show ?thesis by (rule markMessagesAsRead_fault)
next
  case True
  show ?thesis
  proof (cases "currentUser st")
    case None
    then show ?thesis by (simp add: markMessagesAsRead_def)
  next
    case (Some me)
    let ?f = "reset_unread (user_id me) peer"
    let ?st = "st\<lparr>user_chats := map ?f (user_chats st)\<rparr>"
    have first: "markMessagesAsRead NoFault st peer = ?st"
      by (rule markMessagesAsRead_served [OF Some])
    have idem: "?f \<circ> ?f = ?f"
      by (rule ext) (simp add: reset_unread_idem)
    have cur: "currentUser ?st = Some me"
      using Some by simp
    have "markMessagesAsRead NoFault ?st peer = ?st\<lparr>user_chats := map ?f (user_chats ?st)\<rparr>"
      by (rule markMessagesAsRead_served [OF cur])
    also have "\<dots> = ?st"
      by (simp add: idem)
    finally show ?thesis
      by (simp only: True first)
  qed
qed

text \<open>
  Claim C7. For a signed-in owner, a served \<open>markMessagesAsRead\<close> turns every unread count
  the owner holds for that peer into zero; and a second call right after it, however the
  store answers it, gives back the very state the first call left, so the count is zero both
  times.
\<close>

theorem markMessagesAsRead_resets_idempotent:
  "(currentUser st = Some me \<longrightarrow>
      unread_counts (markMessagesAsRead NoFault st peer) (user_id me) peer
        = map (\<lambda>n. 0) (unread_counts st (user_id me) peer))
   \<and> markMessagesAsRead reply (markMessagesAsRead NoFault st peer) peer
       = markMessagesAsRead NoFault st peer"
  using markMessagesAsRead_twice [of reply st peer] unread_counts_after [of st me peer]
  by blast

theorem markMessagesAsRead_resets_idempotent_witness:
  "currentUser bobs_client = Some bob
   \<and> unread_counts bobs_client (user_id bob) ''u-alice'' = [2]
   \<and> unread_counts (markMessagesAsRead NoFault bobs_client ''u-alice'') (user_id bob) ''u-alice'' = [0]
   \<and> unread_counts (markMessagesAsRead NoFault (markMessagesAsRead NoFault bobs_client ''u-alice'')
         ''u-alice'') (user_id bob) ''u-alice'' = [0]"
proof -
  have c: "currentUser bobs_client = Some bob" by (simp add: bobs_client_def)
  have before: "unread_counts bobs_client (user_id bob) ''u-alice'' = [2]"
    by (simp add: unread_counts_def bobs_client_def bob_def chat_bob_alice_def chat_alice_bob_def)
  note t = markMessagesAsRead_resets_idempotent [of bobs_client bob "''u-alice''" NoFault]
  from t c before
  have once: "unread_counts (markMessagesAsRead NoFault bobs_client ''u-alice'') (user_id bob) ''u-alice'' = [0]"
    by simp
  from t have "markMessagesAsRead NoFault (markMessagesAsRead NoFault bobs_client ''u-alice'') ''u-alice''
                 = markMessagesAsRead NoFault bobs_client ''u-alice''"
    by blast
  with once c before show ?thesis by simp
qed

subsection \<open>Signing in\<close>

text \<open>
  Claim C8. Whenever the lookup by phone fails, \<open>signIn\<close> is the call \<open>signUp(phone)\<close>: when
  the store finds no row with that phone, when the store answers the lookup with any error,
  and when the lookup throws. If the store then serves the insert of \<open>signUp\<close>, a new \<open>users\<close>
  row with that phone is appended.
\<close>

theorem signIn_falls_back_to_signUp:
  "(si_lookup env = NoFault \<and> filter (\<lambda>u. phone u = p) (users st) = []
      \<longrightarrow> signIn env st p = signUp (si_signup env) st p None None)
   \<and> (si_lookup env = Refuse code m \<longrightarrow> signIn env st p = signUp (si_signup env) st p None None)
   \<and> (si_lookup env = Throw m \<longrightarrow> signIn env st p = signUp (si_signup env) st p None None)
   \<and> ((\<forall>found. select_single_by_phone (si_lookup env) (users st) p \<noteq> LookupData found)
        \<longrightarrow> signIn env st p = signUp (si_signup env) st p None None)
   \<and> ((\<forall>found. select_single_by_phone (si_lookup env) (users st) p \<noteq> LookupData found)
        \<and> ins_reply (su_insert (si_signup env)) = NoFault
        \<longrightarrow> (\<exists>created. users (snd (signIn env st p)) = users st @ [created] \<and> phone created = p))"
proof (intro conjI impI)
  assume "si_lookup env = NoFault \<and> filter (\<lambda>u. phone u = p) (users st) = []"
  then show "signIn env st p = signUp (si_signup env) st p None None"
    by (simp add: signIn_def select_single_by_phone_def)
next
  assume "si_lookup env = Refuse code m"
  then show "signIn env st p = signUp (si_signup env) st p None None"
    by (simp add: signIn_def select_single_by_phone_def)
next
  assume "si_lookup env = Throw m"
  then show "signIn env st p = signUp (si_signup env) st p None None"
    by (simp add: signIn_def select_single_by_phone_def)
next
  assume "\<forall>found. select_single_by_phone (si_lookup env) (users st) p \<noteq> LookupData found"
  then show "signIn env st p = signUp (si_signup env) st p None None"
    by (cases "select_single_by_phone (si_lookup env) (users st) p") (simp_all add: signIn_def)
next
  assume a: "(\<forall>found. select_single_by_phone (si_lookup env) (users st) p \<noteq> LookupData found)
        \<and> ins_reply (su_insert (si_signup env)) = NoFault"
  then have "signIn env st p = signUp (si_signup env) st p None None"
    by (cases "select_single_by_phone (si_lookup env) (users st) p") (simp_all add: signIn_def)
  with a show "\<exists>created. users (snd (signIn env st p)) = users st @ [created] \<and> phone created = p"
    by (cases "su_profile (si_signup env)") (simp_all add: signUp_def Let_def)
qed

theorem signIn_falls_back_to_signUp_witness:
  "si_lookup lookup_refused = Refuse ''57014'' ''canceling statement due to statement timeout''
   \<and> signIn lookup_refused bobs_client (phone bob)
        = signUp (si_signup lookup_refused) bobs_client (phone bob) None None
   \<and> map phone (users (snd (signIn lookup_refused bobs_client (phone bob))))
        = [phone alice, phone bob, phone bob]
   \<and> filter (\<lambda>u. phone u = ''+15550000000'') (users bobs_client) = []
   \<and> signIn (lookup_refused\<lparr>si_lookup := NoFault\<rparr>) bobs_client ''+15550000000''
        = signUp served_signup bobs_client ''+15550000000'' None None
   \<and> signIn (lookup_refused\<lparr>si_lookup := Throw ''Failed to fetch''\<rparr>) bobs_client (phone bob)
        = signUp served_signup bobs_client (phone bob) None None"
proof -
  have r: "si_lookup lookup_refused = Refuse ''57014'' ''canceling statement due to statement timeout''"
    by (simp add: lookup_refused_def)
  from signIn_falls_back_to_signUp [of lookup_refused _ bobs_client "''57014''"
      "''canceling statement due to statement timeout''"] r
  have s: "signIn lookup_refused bobs_client (phone bob)
        = signUp (si_signup lookup_refused) bobs_client (phone bob) None None"
    by blast
  have "map phone (users (snd (signUp (si_signup lookup_refused) bobs_client (phone bob) None None)))
        = [phone alice, phone bob, phone bob]"
    by (simp add: signUp_def lookup_refused_def served_signup_def Let_def bobs_client_def)
  with s have d: "map phone (users (snd (signIn lookup_refused bobs_client (phone bob))))
        = [phone alice, phone bob, phone bob]"
    by simp
  have none: "filter (\<lambda>u. phone u = ''+15550000000'') (users bobs_client) = []"
    by (simp add: bobs_client_def alice_def bob_def)
  have e1: "si_lookup (lookup_refused\<lparr>si_lookup := NoFault\<rparr>) = NoFault"
    and e2: "si_lookup (lookup_refused\<lparr>si_lookup := Throw ''Failed to fetch''\<rparr>) = Throw ''Failed to fetch''"
    and e3: "si_signup (lookup_refused\<lparr>si_lookup := x\<rparr>) = served_signup" for x
    by (simp_all add: lookup_refused_def)
  from signIn_falls_back_to_signUp [of "lookup_refused\<lparr>si_lookup := NoFault\<rparr>"
      "''+15550000000''" bobs_client] e1 none
  have a: "signIn (lookup_refused\<lparr>si_lookup := NoFault\<rparr>) bobs_client ''+15550000000''
        = signUp served_signup bobs_client ''+15550000000'' None None"
    by (simp only: e3)
  from signIn_falls_back_to_signUp [of "lookup_refused\<lparr>si_lookup := Throw ''Failed to fetch''\<rparr>"
      "phone bob" bobs_client _ "''Failed to fetch''"] e2
  have b: "signIn (lookup_refused\<lparr>si_lookup := Throw ''Failed to fetch''\<rparr>) bobs_client (phone bob)
        = signUp served_signup bobs_client (phone bob) None None"
    by (simp only: e3)
  from r s d none a b show ?thesis by blast
qed

subsection \<open>Sending\<close>

lemma sendMessage_served:
  "currentUser st = Some me \<Longrightarrow> ins_reply env = NoFault \<Longrightarrow>
   sendMessage on_insert env st toUserId body messageType replyTo fileData
     = (Sent (new_message env (user_id me) toUserId body messageType replyTo fileData),
        st\<lparr>messages := messages st @
             [new_message env (user_id me) toUserId body messageType replyTo fileData],
           user_chats := on_insert
             (new_message env (user_id me) toUserId body messageType replyTo fileData)
             (user_chats st)\<rparr>)"
  by (simp add: sendMessage_def Let_def)

lemma sendMessage_rejected:
  "currentUser st = None \<or> ins_reply env \<noteq> NoFault \<Longrightarrow>
   \<exists>e. sendMessage on_insert env st toUserId body messageType replyTo fileData = (SendError e, st)"
  by (cases "currentUser st"; cases "ins_reply env") (simp_all add: sendMessage_def)

lemma sendMessage_messages:
  "messages (snd (sendMessage on_insert env st toUserId body messageType replyTo fileData)) = messages st
   \<or> (\<exists>row. messages (snd (sendMessage on_insert env st toUserId body messageType replyTo fileData))
               = messages st @ [row])"
  by (cases "currentUser st"; cases "ins_reply env") (simp_all add: sendMessage_def Let_def)

lemma unread_counts_user_chats:
  "unread_counts (st\<lparr>messages := ms, user_chats := chats\<rparr>) owner peer
     = map unread_count (filter (\<lambda>c. owner_id c = owner \<and> peer_id c = peer) chats)"
  by (simp add: unread_counts_def)

lemma upsert_summary_same:
  "map unread_count (filter (\<lambda>c. owner_id c = owner \<and> peer_id c = peer)
       (upsert_summary owner peer row inc chats))
     = (if filter (\<lambda>c. owner_id c = owner \<and> peer_id c = peer) chats = [] then [inc]
        else map (\<lambda>n. n + inc)
               (map unread_count (filter (\<lambda>c. owner_id c = owner \<and> peer_id c = peer) chats)))"
proof -
  let ?key = "\<lambda>c. owner_id c = owner \<and> peer_id c = peer"
  let ?f = "\<lambda>c. if owner_id c = owner \<and> peer_id c = peer
                then c\<lparr>unread_count := unread_count c + inc,
                       last_message_content := Some (content row),
                       last_message_timestamp := Some (created_at row)\<rparr>
                else c"
  have m: "map unread_count (filter ?key (map ?f cs))
          = map (\<lambda>n. n + inc) (map unread_count (filter ?key cs))" for cs
    by (induction cs) simp_all
  show ?thesis
  proof (cases "filter ?key chats = []")
    case True
    then show ?thesis by (simp add: upsert_summary_def)
  next
    case False
    then show ?thesis by (simp only: upsert_summary_def if_False m)
  qed
qed

lemma upsert_summary_other:
  assumes "owner' \<noteq> owner \<or> peer' \<noteq> peer"
  shows "map unread_count (filter (\<lambda>c. owner_id c = owner' \<and> peer_id c = peer')
             (upsert_summary owner peer row inc chats))
         = map unread_count (filter (\<lambda>c. owner_id c = owner' \<and> peer_id c = peer') chats)"
proof -
  let ?key = "\<lambda>c. owner_id c = owner' \<and> peer_id c = peer'"
  let ?f = "\<lambda>c. if owner_id c = owner \<and> peer_id c = peer
                then c\<lparr>unread_count := unread_count c + inc,
                       last_message_content := Some (content row),
                       last_message_timestamp := Some (created_at row)\<rparr>
                else c"
  have keep: "?key \<circ> ?f = ?key"
    by (rule ext) simp
  have a: "filter ?key (map ?f cs) = map ?f (filter ?key cs)" for cs
    by (simp only: filter_map keep)
  have b: "map ?f (filter ?key cs) = filter ?key cs" for cs
  proof (rule map_idI)
    fix c assume "c \<in> set (filter ?key cs)"
    then have "owner_id c = owner'" "peer_id c = peer'" by simp_all
    with assms have "\<not> (owner_id c = owner \<and> peer_id c = peer)" by blast
    then show "?f c = c" by (simp only: if_False)
  qed
  have m: "filter ?key (map ?f cs) = filter ?key cs" for cs
    using a [of cs] b [of cs] by (rule trans)
  show ?thesis
  proof (cases "filter (\<lambda>c. owner_id c = owner \<and> peer_id c = peer) chats = []")
    case True
    from assms have "\<not> (owner = owner' \<and> peer = peer')" by blast
    with True show ?thesis by (simp add: upsert_summary_def)
  next
    case False
    then show ?thesis by (simp only: upsert_summary_def if_False m)
  qed
qed

lemma upsert_summaries_recipient:
  assumes "from_user_id row \<noteq> to_user_id row"
  shows "map unread_count (filter (\<lambda>c. owner_id c = to_user_id row \<and> peer_id c = from_user_id row)
             (upsert_summaries row chats))
         = (if filter (\<lambda>c. owner_id c = to_user_id row \<and> peer_id c = from_user_id row) chats = []
            then [1]
            else map (\<lambda>n. n + 1) (map unread_count
                   (filter (\<lambda>c. owner_id c = to_user_id row \<and> peer_id c = from_user_id row) chats)))"
proof -
  let ?key = "\<lambda>c. owner_id c = to_user_id row \<and> peer_id c = from_user_id row"
  let ?inner = "upsert_summary (from_user_id row) (to_user_id row) row 0 chats"
  from assms have ne: "to_user_id row \<noteq> from_user_id row \<or> from_user_id row \<noteq> to_user_id row"
    by simp
  have same: "map unread_count (filter ?key ?inner) = map unread_count (filter ?key chats)"
    by (rule upsert_summary_other [OF ne])
  have "length (map unread_count (filter ?key ?inner)) = length (map unread_count (filter ?key chats))"
    by (simp only: same)
  then have len: "length (filter ?key ?inner) = length (filter ?key chats)"
    by (simp only: length_map)
  have empty: "(filter ?key ?inner = []) = (filter ?key chats = [])"
    using len by (simp only: length_0_conv [symmetric])
  have "map unread_count (filter ?key (upsert_summaries row chats))
          = (if filter ?key ?inner = [] then [1]
             else map (\<lambda>n. n + 1) (map unread_count (filter ?key ?inner)))"
    unfolding upsert_summaries_def by (rule upsert_summary_same)
  then show ?thesis
    by (simp only: same empty)
qed

lemma upsert_summaries_sender:
  assumes "from_user_id row \<noteq> to_user_id row"
  shows "map unread_count (filter (\<lambda>c. owner_id c = from_user_id row \<and> peer_id c = to_user_id row)
             (upsert_summaries row chats))
         = (if filter (\<lambda>c. owner_id c = from_user_id row \<and> peer_id c = to_user_id row) chats = []
            then [0]
            else map unread_count
                   (filter (\<lambda>c. owner_id c = from_user_id row \<and> peer_id c = to_user_id row) chats))"
proof -
  let ?key = "\<lambda>c. owner_id c = from_user_id row \<and> peer_id c = to_user_id row"
  let ?inner = "upsert_summary (from_user_id row) (to_user_id row) row 0 chats"
  from assms have ne: "from_user_id row \<noteq> to_user_id row \<or> to_user_id row \<noteq> from_user_id row"
    by simp
  have "map unread_count (filter ?key (upsert_summaries row chats))
          = map unread_count (filter ?key ?inner)"
    unfolding upsert_summaries_def by (rule upsert_summary_other [OF ne])
  also have "\<dots> = (if filter ?key chats = [] then [0]
                     else map (\<lambda>n. n + 0) (map unread_count (filter ?key chats)))"
    by (rule upsert_summary_same)
  also have "\<dots> = (if filter ?key chats = [] then [0] else map unread_count (filter ?key chats))"
    by (simp only: add_0_right map_ident)
  finally show ?thesis .
qed

lemma upsert_summaries_others:
  assumes "owner \<noteq> to_user_id row \<or> peer \<noteq> from_user_id row"
    and "owner \<noteq> from_user_id row \<or> peer \<noteq> to_user_id row"
  shows "map unread_count (filter (\<lambda>c. owner_id c = owner \<and> peer_id c = peer)
             (upsert_summaries row chats))
         = map unread_count (filter (\<lambda>c. owner_id c = owner \<and> peer_id c = peer) chats)"
proof -
  let ?key = "\<lambda>c. owner_id c = owner \<and> peer_id c = peer"
  let ?inner = "upsert_summary (from_user_id row) (to_user_id row) row 0 chats"
  have "map unread_count (filter ?key (upsert_summaries row chats))
          = map unread_count (filter ?key ?inner)"
    unfolding upsert_summaries_def by (rule upsert_summary_other [OF assms(1)])
  also have "\<dots> = map unread_count (filter ?key chats)"
    by (rule upsert_summary_other [OF assms(2)])
  finally show ?thesis .
qed

text \<open>
  Claim C1, with the store's side modelled from the spec. For a signed-in sender and a
  recipient other than the sender: when the store serves the insert, \<open>sendMessage\<close> hands it
  one row from the sender to the recipient with the given content and type, the row is
  appended to \<open>messages\<close>, and with it the two summaries are upserted. The recipient's unread
  count for the sender is one more than before (or 1 on a new summary), the sender's unread
  count for the recipient is as before (or 0 on a new summary), and the unread counts of
  every other owner and peer are as before. When the insert is refused or throws, the
  answer is an error and the whole state is as before: neither the row nor a summary
  change is in place.
\<close>

theorem sendMessage_upserts_both_summaries:
  assumes "currentUser st = Some me" and "toUserId \<noteq> user_id me"
  shows "(ins_reply env = NoFault \<longrightarrow>
            (\<exists>row. sendMessage upsert_summaries env st toUserId body messageType replyTo fileData
                      = (Sent row, st\<lparr>messages := messages st @ [row],
                                        user_chats := upsert_summaries row (user_chats st)\<rparr>)
                \<and> from_user_id row = user_id me \<and> to_user_id row = toUserId
                \<and> content row = body \<and> message_type row = messageType)
            \<and> unread_counts
                 (snd (sendMessage upsert_summaries env st toUserId body messageType replyTo fileData))
                 toUserId (user_id me)
               = (if unread_counts st toUserId (user_id me) = [] then [1]
                  else map (\<lambda>n. n + 1) (unread_counts st toUserId (user_id me)))
            \<and> unread_counts
                 (snd (sendMessage upsert_summaries env st toUserId body messageType replyTo fileData))
                 (user_id me) toUserId
               = (if unread_counts st (user_id me) toUserId = [] then [0]
                  else unread_counts st (user_id me) toUserId)
            \<and> (\<forall>owner peer.
                  (owner \<noteq> toUserId \<or> peer \<noteq> user_id me)
                  \<and> (owner \<noteq> user_id me \<or> peer \<noteq> toUserId) \<longrightarrow>
                  unread_counts
                    (snd (sendMessage upsert_summaries env st toUserId body messageType replyTo
                            fileData)) owner peer
                  = unread_counts st owner peer))
         \<and> (ins_reply env \<noteq> NoFault \<longrightarrow>
              (\<exists>e. sendMessage upsert_summaries env st toUserId body messageType replyTo fileData
                     = (SendError e, st)))"
proof (intro conjI impI)
  assume "ins_reply env \<noteq> NoFault"
  then show "\<exists>e. sendMessage upsert_summaries env st toUserId body messageType replyTo fileData
                     = (SendError e, st)"
    by (intro sendMessage_rejected) simp
next
  assume served: "ins_reply env = NoFault"
  define row where "row = new_message env (user_id me) toUserId body messageType replyTo fileData"
  have sender: "from_user_id row = user_id me" and recipient: "to_user_id row = toUserId"
    and body: "content row = body" and kind: "message_type row = messageType"
    by (simp_all add: row_def new_message_def)
  have result: "sendMessage upsert_summaries env st toUserId body messageType replyTo fileData
                  = (Sent row, st\<lparr>messages := messages st @ [row],
                                    user_chats := upsert_summaries row (user_chats st)\<rparr>)"
    unfolding row_def by (rule sendMessage_served [OF assms(1) served])
  have after: "unread_counts
                 (snd (sendMessage upsert_summaries env st toUserId body messageType replyTo fileData))
                 owner peer
               = map unread_count (filter (\<lambda>c. owner_id c = owner \<and> peer_id c = peer)
                   (upsert_summaries row (user_chats st)))" for owner peer
    by (simp only: result snd_conv unread_counts_user_chats)
  from assms(2) have distinct: "from_user_id row \<noteq> to_user_id row"
    by (simp add: sender recipient)
  from result sender recipient body kind
  show "\<exists>row. sendMessage upsert_summaries env st toUserId body messageType replyTo fileData
                      = (Sent row, st\<lparr>messages := messages st @ [row],
                                        user_chats := upsert_summaries row (user_chats st)\<rparr>)
                \<and> from_user_id row = user_id me \<and> to_user_id row = toUserId
                \<and> content row = body \<and> message_type row = messageType"
    by blast
  show "unread_counts
          (snd (sendMessage upsert_summaries env st toUserId body messageType replyTo fileData))
          toUserId (user_id me)
        = (if unread_counts st toUserId (user_id me) = [] then [1]
           else map (\<lambda>n. n + 1) (unread_counts st toUserId (user_id me)))"
  proof -
    let ?key = "\<lambda>c. owner_id c = toUserId \<and> peer_id c = user_id me"
    have "map unread_count (filter ?key (upsert_summaries row (user_chats st)))
            = (if filter ?key (user_chats st) = [] then [1]
               else map (\<lambda>n. n + 1) (map unread_count (filter ?key (user_chats st))))"
      using upsert_summaries_recipient [OF distinct, of "user_chats st"]
      by (simp only: sender recipient)
    also have "\<dots> = (if unread_counts st toUserId (user_id me) = [] then [1]
                       else map (\<lambda>n. n + 1) (unread_counts st toUserId (user_id me)))"
      by (simp only: unread_counts_def map_is_Nil_conv)
    finally show ?thesis
      by (simp only: after)
  qed
  show "unread_counts
          (snd (sendMessage upsert_summaries env st toUserId body messageType replyTo fileData))
          (user_id me) toUserId
        = (if unread_counts st (user_id me) toUserId = [] then [0]
           else unread_counts st (user_id me) toUserId)"
  proof -
    let ?key = "\<lambda>c. owner_id c = user_id me \<and> peer_id c = toUserId"
    have "map unread_count (filter ?key (upsert_summaries row (user_chats st)))
            = (if filter ?key (user_chats st) = [] then [0]
               else map unread_count (filter ?key (user_chats st)))"
      using upsert_summaries_sender [OF distinct, of "user_chats st"]
      by (simp only: sender recipient)
    also have "\<dots> = (if unread_counts st (user_id me) toUserId = [] then [0]
                       else unread_counts st (user_id me) toUserId)"
      by (simp only: unread_counts_def map_is_Nil_conv)
    finally show ?thesis
      by (simp only: after)
  qed
  show "\<forall>owner peer.
          (owner \<noteq> toUserId \<or> peer \<noteq> user_id me)
          \<and> (owner \<noteq> user_id me \<or> peer \<noteq> toUserId) \<longrightarrow>
          unread_counts
            (snd (sendMessage upsert_summaries env st toUserId body messageType replyTo fileData))
            owner peer
          = unread_counts st owner peer"
  proof (intro allI impI)
    fix owner peer
    assume other: "(owner \<noteq> toUserId \<or> peer \<noteq> user_id me)
                     \<and> (owner \<noteq> user_id me \<or> peer \<noteq> toUserId)"
    then have o1: "owner \<noteq> to_user_id row \<or> peer \<noteq> from_user_id row"
      and o2: "owner \<noteq> from_user_id row \<or> peer \<noteq> to_user_id row"
      by (simp_all only: sender recipient)
    have "unread_counts
            (snd (sendMessage upsert_summaries env st toUserId body messageType replyTo fileData))
            owner peer
          = map unread_count (filter (\<lambda>c. owner_id c = owner \<and> peer_id c = peer)
              (upsert_summaries row (user_chats st)))"
      by (rule after)
    also have "\<dots> = map unread_count
                        (filter (\<lambda>c. owner_id c = owner \<and> peer_id c = peer) (user_chats st))"
      by (rule upsert_summaries_others [OF o1 o2])
    also have "\<dots> = unread_counts st owner peer"
      by (simp only: unread_counts_def)
    finally show "unread_counts
            (snd (sendMessage upsert_summaries env st toUserId body messageType replyTo fileData))
            owner peer
          = unread_counts st owner peer" .
  qed
qed

theorem sendMessage_upserts_both_summaries_witness:
  "currentUser bobs_client = Some bob \<and> ''u-alice'' \<noteq> user_id bob
   \<and> ins_reply served_insert = NoFault
   \<and> unread_counts bobs_client ''u-alice'' (user_id bob) = [0]
   \<and> unread_counts bobs_client (user_id bob) ''u-alice'' = [2]
   \<and> unread_counts
        (snd (sendMessage upsert_summaries served_insert bobs_client ''u-alice'' ''hi'' ''text''
                None None)) ''u-alice'' (user_id bob) = [1]
   \<and> unread_counts
        (snd (sendMessage upsert_summaries served_insert bobs_client ''u-alice'' ''hi'' ''text''
                None None)) (user_id bob) ''u-alice'' = [2]
   \<and> messages
        (snd (sendMessage upsert_summaries served_insert bobs_client ''u-alice'' ''hi'' ''text''
                None None))
       = messages bobs_client @ [text_message ''m5'' ''u-bob'' ''u-alice'' ''hi'' 40 False]
   \<and> ins_reply refused_insert \<noteq> NoFault
   \<and> snd (sendMessage upsert_summaries refused_insert bobs_client ''u-alice'' ''hi'' ''text''
             None None) = bobs_client"
proof -
  have c: "currentUser bobs_client = Some bob" by (simp add: bobs_client_def)
  have d: "''u-alice'' \<noteq> user_id bob" by (simp add: bob_def)
  have r: "ins_reply served_insert = NoFault" by (simp add: served_insert_def)
  have f: "ins_reply refused_insert \<noteq> NoFault" by (simp add: refused_insert_def)
  have b1: "unread_counts bobs_client ''u-alice'' (user_id bob) = [0]"
    and b2: "unread_counts bobs_client (user_id bob) ''u-alice'' = [2]"
    by (simp_all add: unread_counts_def bobs_client_def bob_def chat_bob_alice_def
          chat_alice_bob_def)
  note served = sendMessage_upserts_both_summaries [OF c d, of served_insert "''hi''" "''text''"
      None None]
  note refused = sendMessage_upserts_both_summaries [OF c d, of refused_insert "''hi''" "''text''"
      None None]
  from served r b1
  have a1: "unread_counts
        (snd (sendMessage upsert_summaries served_insert bobs_client ''u-alice'' ''hi'' ''text''
                None None)) ''u-alice'' (user_id bob) = [1]"
    by simp
  from served r b2
  have a2: "unread_counts
        (snd (sendMessage upsert_summaries served_insert bobs_client ''u-alice'' ''hi'' ''text''
                None None)) (user_id bob) ''u-alice'' = [2]"
    by simp
  have row: "new_message served_insert (user_id bob) ''u-alice'' ''hi'' ''text'' None None
               = text_message ''m5'' ''u-bob'' ''u-alice'' ''hi'' 40 False"
    by (simp add: new_message_def served_insert_def bob_def text_message_def)
  have m: "messages
        (snd (sendMessage upsert_summaries served_insert bobs_client ''u-alice'' ''hi'' ''text''
                None None))
       = messages bobs_client @ [text_message ''m5'' ''u-bob'' ''u-alice'' ''hi'' 40 False]"
    by (simp add: sendMessage_served [OF c r] row)
  from refused f
  have n: "snd (sendMessage upsert_summaries refused_insert bobs_client ''u-alice'' ''hi'' ''text''
             None None) = bobs_client"
    by auto
  from c d r b1 b2 a1 a2 m f n show ?thesis by blast
qed

text \<open>
  Claim C6, as the code has it. Whatever the store does with the summaries, \<open>sendMessage\<close>
  answers with an error exactly when nobody is signed in or the store's insert is refused or
  throws, and then no row is added to \<open>messages\<close>; in every other case it answers \<open>sent\<close>,
  whatever the recipient, the content, the type and the file data are.
\<close>

theorem sendMessage_rejects_only_without_session_or_store:
  "((\<exists>e. fst (sendMessage on_insert env st toUserId body messageType replyTo fileData) = SendError e)
      \<longleftrightarrow> (currentUser st = None \<or> ins_reply env \<noteq> NoFault))
   \<and> ((\<exists>row. fst (sendMessage on_insert env st toUserId body messageType replyTo fileData) = Sent row)
      \<longleftrightarrow> (currentUser st \<noteq> None \<and> ins_reply env = NoFault))
   \<and> ((\<exists>e. fst (sendMessage on_insert env st toUserId body messageType replyTo fileData) = SendError e)
      \<longrightarrow> messages (snd (sendMessage on_insert env st toUserId body messageType replyTo fileData))
            = messages st)"
proof (cases "currentUser st = None \<or> ins_reply env \<noteq> NoFault")
  case True
  from sendMessage_rejected [OF True, of on_insert toUserId body messageType replyTo fileData]
  obtain e where "sendMessage on_insert env st toUserId body messageType replyTo fileData
                    = (SendError e, st)"
    by blast
  with True show ?thesis by auto
next
  case False
  then obtain me where "currentUser st = Some me" "ins_reply env = NoFault" by auto
  from sendMessage_served [OF this, of on_insert toUserId body messageType replyTo fileData] False
  show ?thesis by auto
qed

theorem sendMessage_rejects_only_without_session_or_store_witness:
  "currentUser signed_out = None
   \<and> fst (sendMessage upsert_summaries served_insert signed_out ''u-alice'' ''hi'' ''text'' None None)
        = SendError no_authenticated_user
   \<and> messages (snd (sendMessage upsert_summaries served_insert signed_out ''u-alice'' ''hi'' ''text''
                      None None))
        = messages signed_out"
proof -
  have n: "currentUser signed_out = None" by (simp add: signed_out_def)
  have e: "fst (sendMessage upsert_summaries served_insert signed_out ''u-alice'' ''hi'' ''text''
                  None None)
        = SendError no_authenticated_user"
    by (simp add: sendMessage_def n)
  from sendMessage_rejects_only_without_session_or_store [where st = signed_out
      and on_insert = upsert_summaries
      and env = served_insert and toUserId = "''u-alice''" and body = "''hi''"
      and messageType = "''text''" and replyTo = None and fileData = None] e
  have "messages (snd (sendMessage upsert_summaries served_insert signed_out ''u-alice'' ''hi''
                         ''text'' None None))
        = messages signed_out"
    by blast
  with n e show ?thesis by blast
qed

text \<open>
  The claim as stated fails: Bob's text message to himself with empty content is stored, and
  so is his message of type \<open>file\<close> without file data.
\<close>

theorem sendMessage_validation_counterexample:
  "user_id bob = ''u-bob''
   \<and> sendMessage upsert_summaries served_insert bobs_client ''u-bob'' [] ''text'' None None
       = (Sent (text_message ''m5'' ''u-bob'' ''u-bob'' [] 40 False),
          bobs_client\<lparr>messages := messages bobs_client
                          @ [text_message ''m5'' ''u-bob'' ''u-bob'' [] 40 False],
                       user_chats := upsert_summaries
                          (text_message ''m5'' ''u-bob'' ''u-bob'' [] 40 False)
                          (user_chats bobs_client)\<rparr>)
   \<and> fst (sendMessage upsert_summaries served_insert bobs_client ''u-alice'' [] ''file'' None None)
       = Sent ((text_message ''m5'' ''u-bob'' ''u-alice'' [] 40 False)\<lparr>message_type := ''file''\<rparr>)"
proof -
  have c: "currentUser bobs_client = Some bob" by (simp add: bobs_client_def)
  have r: "ins_reply served_insert = NoFault" by (simp add: served_insert_def)
  have u: "user_id bob = ''u-bob''" by (simp add: bob_def)
  have row1: "new_message served_insert ''u-bob'' ''u-bob'' [] ''text'' None None
               = text_message ''m5'' ''u-bob'' ''u-bob'' [] 40 False"
    by (simp add: new_message_def served_insert_def text_message_def)
  have row2: "new_message served_insert ''u-bob'' ''u-alice'' [] ''file'' None None
               = (text_message ''m5'' ''u-bob'' ''u-alice'' [] 40 False)\<lparr>message_type := ''file''\<rparr>"
    by (simp add: new_message_def served_insert_def text_message_def)
  show ?thesis
    by (simp only: sendMessage_served [OF c r] u row1 row2 fst_conv simp_thms)
qed

subsection \<open>Editing and deleting a message\<close>

lemma no_owned_rows:
  assumes "\<forall>m \<in> set ms. message_id m = mid \<longrightarrow> from_user_id m \<noteq> me"
  shows "filter (owned_by mid me) ms = []"
    and "map (apply_edit mid me body now) ms = ms"
    and "map (apply_delete mid me) ms = ms"
proof -
  from assms have none: "\<forall>m \<in> set ms. \<not> owned_by mid me m"
    by (auto simp: owned_by_def)
  then show "filter (owned_by mid me) ms = []"
    by (simp add: filter_empty_conv)
  from none show "map (apply_edit mid me body now) ms = ms"
    by (intro map_idI) (simp add: apply_edit_def)
  from none show "map (apply_delete mid me) ms = ms"
    by (intro map_idI) (simp add: apply_delete_def)
qed

lemma same_messages: "st\<lparr>messages := messages st\<rparr> = st"
  by simp

text \<open>
  Claim C3, as the code has it. When the signed-in user is not the sender of the message
  with the given id, \<open>editMessage\<close> answers with an error and leaves the state as it was (on a
  served call the error is the one of \<open>.single()\<close> finding no row, the same as for an id that
  does not exist), and \<open>deleteMessage\<close> leaves the state as it was.
\<close>

theorem edit_delete_by_other_user_change_nothing:
  assumes "currentUser st = Some me"
    and "\<forall>m \<in> set (messages st). message_id m = mid \<longrightarrow> from_user_id m \<noteq> user_id me"
  shows "(\<exists>e. editMessage reply now st mid newContent = (EditError e, st))
         \<and> editMessage NoFault now st mid newContent = (EditError single_row_message, st)
         \<and> snd (deleteMessage reply st mid) = st"
proof (intro conjI)
  note none = no_owned_rows [OF assms(2)]
  show served: "editMessage NoFault now st mid newContent = (EditError single_row_message, st)"
    by (simp add: editMessage_def assms(1) none(1))
  show "\<exists>e. editMessage reply now st mid newContent = (EditError e, st)"
  proof (cases reply)
    case NoFault
    with served show ?thesis by blast
  next
    case (Refuse code m)
    then show ?thesis by (simp add: editMessage_def assms(1))
  next
    case (Throw m)
    then show ?thesis by (simp add: editMessage_def assms(1))
  qed
  show "snd (deleteMessage reply st mid) = st"
    by (cases reply) (simp_all add: deleteMessage_def assms(1) none(3) same_messages)
qed

theorem edit_delete_by_other_user_change_nothing_witness:
  "currentUser bobs_client = Some bob
   \<and> m1 \<in> set (messages bobs_client) \<and> from_user_id m1 \<noteq> user_id bob
   \<and> editMessage NoFault 40 bobs_client (message_id m1) ''changed''
        = (EditError single_row_message, bobs_client)
   \<and> snd (deleteMessage NoFault bobs_client (message_id m1)) = bobs_client"
proof -
  have c: "currentUser bobs_client = Some bob" by (simp add: bobs_client_def)
  have i: "m1 \<in> set (messages bobs_client)" by (simp add: bobs_client_def)
  have f: "from_user_id m1 \<noteq> user_id bob" by (simp add: m1_def text_message_def bob_def)
  have o: "\<forall>m \<in> set (messages bobs_client). message_id m = message_id m1
             \<longrightarrow> from_user_id m \<noteq> user_id bob"
    by (simp add: bobs_client_def m1_def m2_def m3_def m4_def text_message_def bob_def)
  from edit_delete_by_other_user_change_nothing [OF c o, of NoFault 40 "''changed''"] c i f
  show ?thesis by blast
qed

text \<open>
  The claim as stated fails: Bob's request to delete Alice's message \<open>m1\<close> is answered with
  \<open>success\<close>, not with an error.
\<close>

theorem deleteMessage_forbidden_counterexample:
  "currentUser bobs_client = Some bob
   \<and> m1 \<in> set (messages bobs_client) \<and> from_user_id m1 = ''u-alice'' \<and> user_id bob = ''u-bob''
   \<and> fst (deleteMessage NoFault bobs_client (message_id m1)) = StatusSuccess"
  by (simp add: deleteMessage_def bobs_client_def m1_def text_message_def bob_def)

subsection \<open>Soft deletion\<close>

lemma deleteMessage_rows:
  "list_all2 (\<lambda>a b. b = a \<or> b = a\<lparr>is_deleted := True\<rparr>)
     (messages st) (messages (snd (deleteMessage reply st mid)))"
proof -
  have m: "list_all2 (\<lambda>a b. b = a \<or> b = a\<lparr>is_deleted := True\<rparr>) ms (map (apply_delete mid me) ms)"
    for ms me
    by (induction ms) (simp_all add: apply_delete_def)
  have s: "list_all2 (\<lambda>a b. b = a \<or> b = a\<lparr>is_deleted := True\<rparr>) ms ms" for ms :: "message list"
    by (simp add: list_all2_same)
  show ?thesis
    by (cases "currentUser st"; cases reply) (simp_all add: deleteMessage_def m s)
qed

lemma deleteMessage_own_row:
  assumes "currentUser st = Some me" "row \<in> set (messages st)" "message_id row = mid"
    "from_user_id row = user_id me"
  shows "deleteMessage NoFault st mid
           = (StatusSuccess, st\<lparr>messages := map (apply_delete mid (user_id me)) (messages st)\<rparr>)"
    and "row\<lparr>is_deleted := True\<rparr> \<in> set (messages (snd (deleteMessage NoFault st mid)))"
proof -
  show d: "deleteMessage NoFault st mid
           = (StatusSuccess, st\<lparr>messages := map (apply_delete mid (user_id me)) (messages st)\<rparr>)"
    by (simp add: deleteMessage_def assms(1))
  have "apply_delete mid (user_id me) row = row\<lparr>is_deleted := True\<rparr>"
    using assms(3,4) by (simp add: apply_delete_def owned_by_def)
  with assms(2) have "row\<lparr>is_deleted := True\<rparr> \<in> apply_delete mid (user_id me) ` set (messages st)"
    by (metis imageI)
  then show "row\<lparr>is_deleted := True\<rparr> \<in> set (messages (snd (deleteMessage NoFault st mid)))"
    by (simp add: d)
qed

lemma editMessage_ids:
  "map message_id (messages (snd (editMessage reply now st mid body))) = map message_id (messages st)"
proof -
  have m: "message_id (apply_edit mid me body now x) = message_id x" for me x
    by (simp add: apply_edit_def)
  show ?thesis
    by (cases "currentUser st"; cases reply)
       (simp_all add: editMessage_def m split: list.split)
qed

lemma markMessagesAsRead_messages: "messages (markMessagesAsRead reply st peer) = messages st"
  by (cases "currentUser st"; cases reply) (simp_all add: markMessagesAsRead_def)

lemma signUp_messages: "messages (snd (signUp env st p n e)) = messages st"
  by (simp add: signUp_def Let_def split: fault.split lookup_reply.split)

lemma signIn_messages: "messages (snd (signIn env st p)) = messages st"
  by (simp add: signIn_def signUp_messages split: fault.split lookup_reply.split)

lemma updateTypingStatus_messages: "messages (updateTypingStatus st peer t) = messages st"
  by (simp add: updateTypingStatus_def split: option.split)

text \<open>
  Claim C5, as the code has it. \<open>deleteMessage\<close> removes no row: after it the table holds the
  same rows in the same places, each either untouched or with only its \<open>is_deleted\<close> flag
  set, and the sender's own row is there with the flag set. No successful \<open>getMessages\<close>
  returns a row whose flag is set. \<open>sendMessage\<close> only appends, \<open>editMessage\<close> keeps the ids
  of all rows, and \<open>markMessagesAsRead\<close>, \<open>updateTypingStatus\<close> and \<open>signIn\<close> (with the
  \<open>signUp\<close> it may call) leave \<open>messages\<close> alone.
\<close>

theorem soft_delete_keeps_row_and_hides_it:
  "list_all2 (\<lambda>a b. b = a \<or> b = a\<lparr>is_deleted := True\<rparr>)
       (messages st) (messages (snd (deleteMessage reply st mid)))
   \<and> (currentUser st = Some me \<and> row \<in> set (messages st) \<and> message_id row = mid
        \<and> from_user_id row = user_id me \<longrightarrow>
          fst (deleteMessage NoFault st mid) = StatusSuccess
          \<and> row\<lparr>is_deleted := True\<rparr> \<in> set (messages (snd (deleteMessage NoFault st mid))))
   \<and> (getMessages reply st peer opts = MessagesSuccess msgs hasMore \<longrightarrow>
        (\<exists>rows. msgs = map (format_message st) rows
           \<and> (\<forall>r \<in> set rows. r \<in> set (messages st) \<and> is_deleted r = False)))
   \<and> (messages (snd (sendMessage on_insert env st toUserId body messageType replyTo fileData))
          = messages st
        \<or> (\<exists>new. messages (snd (sendMessage on_insert env st toUserId body messageType replyTo
                                      fileData))
                    = messages st @ [new]))
   \<and> map message_id (messages (snd (editMessage reply now st mid newContent)))
        = map message_id (messages st)
   \<and> messages (markMessagesAsRead reply st peer) = messages st
   \<and> messages (updateTypingStatus st peer isTyping) = messages st
   \<and> messages (snd (signIn senv st phone_input)) = messages st"
proof (intro conjI impI)
  show "list_all2 (\<lambda>a b. b = a \<or> b = a\<lparr>is_deleted := True\<rparr>)
       (messages st) (messages (snd (deleteMessage reply st mid)))"
    by (rule deleteMessage_rows)
next
  assume a: "currentUser st = Some me \<and> row \<in> set (messages st) \<and> message_id row = mid
        \<and> from_user_id row = user_id me"
  then show "fst (deleteMessage NoFault st mid) = StatusSuccess"
    by (simp add: deleteMessage_own_row(1) [of st me row mid])
  from a show "row\<lparr>is_deleted := True\<rparr> \<in> set (messages (snd (deleteMessage NoFault st mid)))"
    by (simp add: deleteMessage_own_row(2) [of st me row mid])
next
  assume g: "getMessages reply st peer opts = MessagesSuccess msgs hasMore"
  from getMessages_success [OF g] obtain me' where
    "currentUser st = Some me' \<and> reply = NoFault
       \<and> msgs = map (format_message st) (rev (query_messages st (user_id me') peer opts))
       \<and> hasMore = (length (query_messages st (user_id me') peer opts) = requested_limit opts)" ..
  then have msgs: "msgs = map (format_message st) (rev (query_messages st (user_id me') peer opts))"
    by (elim conjE)
  have "\<forall>r \<in> set (rev (query_messages st (user_id me') peer opts)).
          r \<in> set (messages st) \<and> is_deleted r = False"
    using query_messages_selected [of _ st "user_id me'" peer opts]
    by (auto simp: selected_def)
  with msgs show "\<exists>rows. msgs = map (format_message st) rows
           \<and> (\<forall>r \<in> set rows. r \<in> set (messages st) \<and> is_deleted r = False)"
    by blast
next
  show "messages (snd (sendMessage on_insert env st toUserId body messageType replyTo fileData))
          = messages st
        \<or> (\<exists>new. messages (snd (sendMessage on_insert env st toUserId body messageType replyTo
                                      fileData))
                    = messages st @ [new])"
    by (rule sendMessage_messages)
next
  show "map message_id (messages (snd (editMessage reply now st mid newContent)))
        = map message_id (messages st)"
    by (rule editMessage_ids)
next
  show "messages (markMessagesAsRead reply st peer) = messages st"
    by (rule markMessagesAsRead_messages)
next
  show "messages (updateTypingStatus st peer isTyping) = messages st"
    by (rule updateTypingStatus_messages)
next
  show "messages (snd (signIn senv st phone_input)) = messages st"
    by (rule signIn_messages)
qed

theorem soft_delete_keeps_row_and_hides_it_witness:
  "currentUser alices_client = Some alice \<and> m1 \<in> set (messages alices_client)
   \<and> from_user_id m1 = user_id alice
   \<and> fst (deleteMessage NoFault alices_client ''m1'') = StatusSuccess
   \<and> messages (snd (deleteMessage NoFault alices_client ''m1''))
        = [m3, m1\<lparr>is_deleted := True\<rparr>, m2, m4]
   \<and> getMessages NoFault (snd (deleteMessage NoFault alices_client ''m1'')) ''u-bob'' newest_two
        = MessagesSuccess [format_message (snd (deleteMessage NoFault alices_client ''m1'')) m3] False"
proof -
  let ?after = "snd (deleteMessage NoFault alices_client ''m1'')"
  have c: "currentUser alices_client = Some alice"
    by (simp add: alices_client_def)
  have i: "m1 \<in> set (messages alices_client)"
    by (simp add: alices_client_def bobs_client_def)
  have f: "from_user_id m1 = user_id alice" and k: "message_id m1 = ''m1''"
    by (simp_all add: m1_def text_message_def alice_def)
  from soft_delete_keeps_row_and_hides_it [where st = alices_client and me = alice
      and row = m1 and mid = "''m1''"] c i f k
  have ok: "fst (deleteMessage NoFault alices_client ''m1'') = StatusSuccess"
    by blast
  have rows: "messages ?after = [m3, m1\<lparr>is_deleted := True\<rparr>, m2, m4]"
    by (simp add: deleteMessage_def alices_client_def bobs_client_def apply_delete_def
          owned_by_def alice_def m1_def m2_def m3_def m4_def text_message_def)
  have cur: "currentUser ?after = Some alice"
    by (simp add: deleteMessage_def alices_client_def)
  have q: "query_messages ?after ''u-alice'' ''u-bob'' newest_two = [m3]"
    by (simp add: query_messages_def rows requested_limit_def newest_two_def selected_def
          between_users_def in_window_def m1_def m2_def m3_def m4_def text_message_def
          sort_key_def)
  have l: "requested_limit newest_two = 2"
    by (simp add: requested_limit_def newest_two_def)
  have u: "user_id alice = ''u-alice''" by (simp add: alice_def)
  have g: "getMessages NoFault ?after ''u-bob'' newest_two
        = MessagesSuccess [format_message ?after m3] False"
    by (simp add: getMessages_def cur u q l)
  from c i f ok rows g show ?thesis by blast
qed

text \<open>
  The claim as stated fails: \<open>deleteChat\<close> removes rows from \<open>messages\<close>. Bob deleting his
  chat with Alice removes the two messages she sent him.
\<close>

theorem deleteChat_removes_rows_counterexample:
  "messages bobs_client = [m3, m1, m2, m4]
   \<and> fst (deleteChat NoFault NoFault bobs_client ''u-alice'') = StatusSuccess
   \<and> messages (snd (deleteChat NoFault NoFault bobs_client ''u-alice'')) = [m2, m4]"
  by (simp add: deleteChat_def bobs_client_def Let_def chat_delete_filter_def bob_def
        m1_def m2_def m3_def m4_def text_message_def)

subsection \<open>Typing status\<close>

text \<open>
  Claim C9, as the code has it. \<open>updateTypingStatus\<close> leaves the state as it was, for either
  value of \<open>isTyping\<close>: it stores nothing and clears nothing.
\<close>

theorem updateTypingStatus_changes_nothing:
  "updateTypingStatus st peerId isTyping = st"
  by (simp add: updateTypingStatus_def split: option.split)

text \<open>
  The claim as stated fails: after Bob starts typing to Alice his client is in the state it
  was in before, which is also the state after he stops.
\<close>

theorem updateTypingStatus_counterexample:
  "updateTypingStatus bobs_client ''u-alice'' True = bobs_client
   \<and> updateTypingStatus bobs_client ''u-alice'' True = updateTypingStatus bobs_client ''u-alice'' False"
  by (simp add: updateTypingStatus_def split: option.split)

end
